theory Spec2Isabelle
  imports Complex_Main "HOL-Library.Sublist"
begin

section \<open>JavaScript values shared by the service and the components\<close>

text \<open>
  A thrown JavaScript value. The service only ever reads \<open>error.message\<close>, so every
  thrown value is an error object with a message: \<open>Error\<close> is what the source and the
  provider SDK throw, \<open>TypeError\<close> is what the engine throws when a property of
  \<open>undefined\<close> is read, \<open>SyntaxError\<close> is what \<open>JSON.parse\<close> throws.
\<close>

datatype js_error = Error string | TypeError string | SyntaxError string

fun message :: "js_error \<Rightarrow> string" where
  "message (Error m) = m"
| "message (TypeError m) = m"
| "message (SyntaxError m) = m"

text \<open>
  The decimal digits of a number, as \<open>toString()\<close> and a template literal print an
  integer.
\<close>

fun decimal :: "nat \<Rightarrow> string" where
  "decimal n =
     (if n div 10 = 0 then [''0123456789'' ! n]
      else decimal (n div 10) @ [''0123456789'' ! (n mod 10)])"

declare decimal.simps [simp del]

definition decimal_int :: "int \<Rightarrow> string" where
  "decimal_int i = (if i < 0 then CHR ''-'' # decimal (nat (- i)) else decimal (nat i))"

text \<open>A template literal that spans several lines: its lines joined by line feeds.\<close>

fun template_lines :: "string list \<Rightarrow> string" where
  "template_lines [] = []"
| "template_lines [l] = l"
| "template_lines (l # ls) = l @ [CHR 0x0A] @ template_lines ls"

section \<open>The provider interface (the SDK's request and response objects)\<close>

text \<open>
  \<open>Blob mimeType data\<close>, \<open>Part text inlineData\<close> (selector \<open>part_text\<close>), \<open>Content parts\<close>, \<open>Candidate content\<close>:
  every field of a response is optional in the SDK, so each is an \<open>option\<close>.
  \<open>response_text\<close> is the value of the response's \<open>text\<close> accessor.
\<close>

datatype Blob = Blob "string option" "string option"

datatype Part = Part (part_text: "string option") (inlineData: "Blob option")

datatype Content = Content (parts: "Part list option")

datatype Candidate = Candidate (content: "Content option")

datatype GenerateContentResponse =
  GenerateContentResponse (candidates: "Candidate list option") (response_text: "string option")

text \<open>The response schema the comparison request declares.\<close>

datatype Schema =
    INTEGER "string option"
  | STRING "string option"
  | ARRAY Schema
  | OBJECT "(string \<times> Schema) list"

datatype GenerateContentConfig =
    ImageConfig string
  | StructuredConfig string Schema

datatype GenerateContentParameters =
  GenerateContentParameters (model: string) (contents: "Part list") (config: GenerateContentConfig)

text \<open>
  The provider is the environment: \<open>provider n request\<close> is how the \<open>n\<close>-th call of one
  invocation settles, either thrown (\<open>Inl\<close>) or resolved with a response (\<open>Inr\<close>).
\<close>

type_synonym provider = "nat \<Rightarrow> GenerateContentParameters \<Rightarrow> js_error + GenerateContentResponse"

section \<open>The service: \<open>generateImageVariation\<close>\<close>

text \<open>
  The number handed to \<open>wait\<close>: a double that is a whole number of milliseconds, or
  \<open>Infinity\<close>.
\<close>

datatype delay = Millis nat | Infinity

text \<open>
  What one invocation does to the outside world, in order: provider calls, timers and
  console output. \<open>Wait ms\<close> is a timer that runs \<open>ms\<close> milliseconds. \<open>TimerOverflow d\<close> is
  a call of \<open>setTimeout\<close> with a delay \<open>d\<close> it cannot keep: the delay does not fit the
  signed 32-bit integer of milliseconds the timer holds, the runtime puts another delay in
  its place, and the timer does not run for \<open>d\<close>.
\<close>

datatype effect =
    ProviderCall GenerateContentParameters
  | Wait nat
  | TimerOverflow delay
  | ConsoleWarn string string
  | ConsoleError string "js_error option"

record gen_state =
  effects :: "effect list"
  lastError :: "js_error option"

definition basePrompt :: "string \<Rightarrow> string \<Rightarrow> string" where
  \<open>basePrompt prompt aspectRatio = template_lines
     [''Analyze the attached reference image carefully for style, composition, and key features. '',
      ''              '',
      ''  Task: Generate a high-fidelity, photorealistic new image based on this analysis and the following instruction: "'' @ prompt @ ''".'',
      ''  '',
      ''  Requirements:'',
      ''  - Output Resolution: 8K equivalent detail.'',
      ''  - Quality: Masterpiece, highly detailed, sharp focus.'',
      ''  - Aspect Ratio: '' @ aspectRatio @ ''.'',
      ''  - Do not simply describe the image; generate the visual result.'']\<close>

definition enhancementBlock :: string where
  \<open>enhancementBlock = template_lines
     ['''',
      ''    '',
      ''    CRITICAL ENHANCEMENT INSTRUCTIONS:'',
      ''    - MODE: ULTRA-REALISM & TEXTURE UPSCALING.'',
      ''    - Lighting: Apply volumetric lighting, ray-tracing style shadows, and professional color grading (HDR).'',
      ''    - Details: Enhance micro-textures (skin pores, fabric threads, material imperfections).'',
      ''    - Clarity: Eliminate all compression artifacts, blur, or noise. Denoise and sharpen.'',
      ''    - Aesthetics: Cinematic composition, award-winning photography style.'']\<close>

text \<open>\<open>let systemPrompt = ...; if (enhanceQuality) systemPrompt += ...\<close>\<close>

definition systemPrompt :: "string \<Rightarrow> string \<Rightarrow> bool \<Rightarrow> string" where
  "systemPrompt prompt aspectRatio enhanceQuality =
     (let systemPrompt = basePrompt prompt aspectRatio in
      if enhanceQuality then systemPrompt @ enhancementBlock else systemPrompt)"

definition generationRequest ::
  "string \<Rightarrow> string \<Rightarrow> string \<Rightarrow> string \<Rightarrow> bool \<Rightarrow> GenerateContentParameters" where
  "generationRequest referenceImageBase64 mimeType prompt aspectRatio enhanceQuality =
     GenerateContentParameters ''gemini-2.5-flash-image''
       [Part (Some (systemPrompt prompt aspectRatio enhanceQuality)) None,
        Part None (Some (Blob (Some mimeType) (Some referenceImageBase64)))]
       (ImageConfig aspectRatio)"

text \<open>
  \<open>if (part.inlineData && part.inlineData.data)\<close>: the part has inline data and its
  payload is a non-empty string (the empty string is falsy).
\<close>

fun inlinePayload :: "Part \<Rightarrow> string option" where
  "inlinePayload (Part _ (Some (Blob _ (Some d)))) = (if d = [] then None else Some d)"
| "inlinePayload _ = None"

text \<open>The loop over the parts: it returns at the first part that carries a payload.\<close>

fun firstImage :: "Part list \<Rightarrow> string option" where
  "firstImage [] = None"
| "firstImage (part # rest) =
     (case inlinePayload part of
        Some d \<Rightarrow> Some (''data:image/png;base64,'' @ d)
      | None \<Rightarrow> firstImage rest)"

definition noImageError :: js_error where
  "noImageError = Error ''API returned response but no image data found.''"

text \<open>
  The body of the \<open>try\<close> after the call has resolved. \<open>response.candidates\<close> is truthy
  for every array, also the empty one; then \<open>response.candidates[0].content.parts\<close> throws
  a TypeError when there is no first candidate or it has no content.
\<close>

definition imageFromResponse :: "GenerateContentResponse \<Rightarrow> js_error + string" where
  "imageFromResponse response =
     (case candidates response of
        None \<Rightarrow> Inl noImageError
      | Some [] \<Rightarrow> Inl (TypeError ''Cannot read properties of undefined (reading 'content')'')
      | Some (c # _) \<Rightarrow>
          (case content c of
             None \<Rightarrow> Inl (TypeError ''Cannot read properties of undefined (reading 'parts')'')
           | Some ct \<Rightarrow>
               (case parts ct of
                  None \<Rightarrow> Inl noImageError
                | Some ps \<Rightarrow>
                    (case firstImage ps of
                       Some url \<Rightarrow> Inr url
                     | None \<Rightarrow> Inl noImageError))))"

definition tryAttempt :: "provider \<Rightarrow> GenerateContentParameters \<Rightarrow> nat \<Rightarrow> js_error + string" where
  "tryAttempt provider request attempt =
     (case provider attempt request of
        Inl error \<Rightarrow> Inl error
      | Inr response \<Rightarrow> imageFromResponse response)"

definition emit :: "effect \<Rightarrow> gen_state \<Rightarrow> gen_state" where
  "emit e st = st\<lparr>effects := effects st @ [e]\<rparr>"

text \<open>
  \<open>1000 * Math.pow(2, attempt - 1)\<close> in double arithmetic. The product is
  \<open>125 * 2^(attempt + 2)\<close>: a double holds it exactly as long as it is below \<open>2^1024\<close>,
  that is up to attempt 1015, and from attempt 1016 on the result is \<open>Infinity\<close>.
\<close>

definition backoffDelay :: "nat \<Rightarrow> delay" where
  "backoffDelay attempt =
     (if attempt - 1 \<le> 1014 then Millis (1000 * 2 ^ (attempt - 1)) else Infinity)"

text \<open>
  \<open>wait(ms)\<close>, that is \<open>setTimeout(resolve, ms)\<close>: the timer runs \<open>ms\<close> milliseconds when
  \<open>ms\<close> is at most \<open>2^31 - 1\<close>, the largest delay a timer holds.
\<close>

definition wait :: "delay \<Rightarrow> effect" where
  "wait d =
     (case d of
        Millis ms \<Rightarrow> if ms \<le> 2147483647 then Wait ms else TimerOverflow d
      | Infinity \<Rightarrow> TimerOverflow d)"

text \<open>
  The \<open>catch\<close> block of one attempt: warn, record the error, and wait unless this was
  the last attempt. (The two numbers of the warning are printed in decimal, as
  JavaScript prints every integer below \<open>10^21\<close>.)
\<close>

definition catchBlock :: "int \<Rightarrow> nat \<Rightarrow> js_error \<Rightarrow> gen_state \<Rightarrow> gen_state" where
  "catchBlock maxRetries attempt error st =
     (let st1 = emit (ConsoleWarn
                  (''Generation attempt '' @ decimal attempt @ ''/'' @
                   decimal_int maxRetries @ '' failed:'') (message error)) st;
          st2 = st1\<lparr>lastError := Some error\<rparr>
      in if int attempt < maxRetries
         then emit (wait (backoffDelay attempt)) st2 else st2)"

text \<open>
  \<open>for (let attempt = 1; attempt <= maxRetries; attempt++) { try { ... } catch { ... } }\<close>
  followed by the final \<open>console.error\<close> and \<open>return null\<close>.
\<close>

function attempts ::
  "provider \<Rightarrow> GenerateContentParameters \<Rightarrow> int \<Rightarrow> nat \<Rightarrow> gen_state \<Rightarrow> string option \<times> gen_state" where
  "attempts provider request maxRetries attempt st =
     (if int attempt \<le> maxRetries then
        (case tryAttempt provider request attempt of
           Inr url \<Rightarrow> (Some url, emit (ProviderCall request) st)
         | Inl error \<Rightarrow>
             attempts provider request maxRetries (attempt + 1)
               (catchBlock maxRetries attempt error (emit (ProviderCall request) st)))
      else (None, emit (ConsoleError ''All generation attempts failed.'' (lastError st)) st))"
  by pat_completeness auto
termination
  by (relation "measure (\<lambda>(provider, request, maxRetries, attempt, st). nat (maxRetries + 1 - int attempt))") auto

declare attempts.simps [simp del]

text \<open>
  Constructing the client performs no call; the function then runs the loop from
  attempt 1 with no error recorded. It returns the image reference or \<open>null\<close> (\<open>None\<close>),
  together with what it did to the outside world.
\<close>

definition generateImageVariation ::
  "provider \<Rightarrow> string \<Rightarrow> string \<Rightarrow> string \<Rightarrow> string \<Rightarrow> bool \<Rightarrow> int \<Rightarrow> string option \<times> gen_state" where
  "generateImageVariation provider referenceImageBase64 mimeType prompt aspectRatio enhanceQuality maxRetries =
     attempts provider
       (generationRequest referenceImageBase64 mimeType prompt aspectRatio enhanceQuality)
       maxRetries 1 \<lparr>effects = [], lastError = None\<rparr>"

section \<open>Vocabulary of the claims about the service\<close>

text \<open>
  The parts the service inspects in a response: those of the first candidate's content
  (no parts when a level is missing).
\<close>

definition responseParts :: "GenerateContentResponse \<Rightarrow> Part list" where
  "responseParts response =
     (case candidates response of
        Some (c # _) \<Rightarrow>
          (case content c of
             Some ct \<Rightarrow> (case parts ct of Some ps \<Rightarrow> ps | None \<Rightarrow> [])
           | None \<Rightarrow> [])
      | _ \<Rightarrow> [])"

definition carriesImage :: "Part \<Rightarrow> bool" where
  "carriesImage part = (inlinePayload part \<noteq> None)"

definition attemptFails :: "js_error + GenerateContentResponse \<Rightarrow> bool" where
  "attemptFails outcome =
     (case outcome of
        Inl _ \<Rightarrow> True
      | Inr response \<Rightarrow> \<not> list_ex carriesImage (responseParts response))"

fun isConsole :: "effect \<Rightarrow> bool" where
  "isConsole (ConsoleWarn _ _) = True"
| "isConsole (ConsoleError _ _) = True"
| "isConsole _ = False"

definition callsAndWaits :: "effect list \<Rightarrow> effect list" where
  "callsAndWaits es = filter (\<lambda>e. \<not> isConsole e) es"



section \<open>The generator view: \<open>handleGenerate\<close>\<close>

text \<open>
  \<open>GeneratedImage\<close> and \<open>GenerationState\<close> of \<open>types.ts\<close>. The fields \<open>id\<close>, \<open>prompt\<close> and
  \<open>aspectRatio\<close> of a generated image are the selectors \<open>img_id\<close>, \<open>img_prompt\<close> and
  \<open>img_aspectRatio\<close>. The reference image held by the view is
  \<open>RefImage data mime preview\<close>.
\<close>

datatype GeneratedImage =
  GeneratedImage (img_id: string) (url: string) (img_prompt: string) (img_aspectRatio: string)
    (createdAt: nat) (enhanced: "bool option")

record GenerationState =
  isGenerating :: bool
  progress :: nat
  error :: "string option"

record app_state =
  results :: "GeneratedImage list"
  genState :: GenerationState

datatype RefImage = RefImage (ref_data: string) (ref_mime: string) (ref_preview: string)

text \<open>
  The four requests run concurrently; the event loop resumes one invocation at a time.
  A \<open>Completion\<close> is the moment the call of \<open>generateImageVariation\<close> of the invocation
  launched at \<open>launchIndex\<close> has settled and its continuation runs; \<open>nowForId\<close> and
  \<open>nowForCreatedAt\<close> are what its two reads of \<open>Date.now()\<close> return. A schedule lists
  the completions in the order in which they happen.
\<close>

datatype Completion = Completion (launchIndex: nat) (nowForId: nat) (nowForCreatedAt: nat)

text \<open>
  The continuation of one invocation, given how its call settled (\<open>Inl\<close>: rejected,
  \<open>Inr\<close>: resolved). It yields the promise's value (an image or \<open>null\<close>) and the new state
  when it updates the state. \<open>if (imgData)\<close> is false for \<open>null\<close> and for the empty string.
\<close>

definition onSettled ::
  "string \<Rightarrow> string \<Rightarrow> bool \<Rightarrow> js_error + string option \<Rightarrow> Completion \<Rightarrow> app_state \<Rightarrow>
   GeneratedImage option \<times> app_state option" where
  "onSettled prompt aspectRatio enhanceQuality outcome c st =
     (case outcome of
        Inl e \<Rightarrow> (None, None)
      | Inr None \<Rightarrow> (None, None)
      | Inr (Some imgData) \<Rightarrow>
          if imgData = [] then (None, None)
          else (Some (GeneratedImage
                        (decimal (nowForId c) @ decimal (launchIndex c))
                        imgData prompt aspectRatio (nowForCreatedAt c) (Some enhanceQuality)),
                Some (st\<lparr>genState := (genState st)\<lparr>progress := progress (genState st) + 1\<rparr>\<rparr>)))"

text \<open>
  A running batch: the states the view has gone through, one per state update, oldest
  first, and one slot per launched promise (\<open>None\<close> while pending, \<open>Some v\<close> once settled
  with the value \<open>v\<close>). A promise settles once: a completion that names a settled slot, or
  no slot at all, changes nothing.
\<close>

record batch =
  history :: "app_state list"
  slots :: "GeneratedImage option option list"

definition settle ::
  "string \<Rightarrow> string \<Rightarrow> bool \<Rightarrow> (js_error + string option) list \<Rightarrow> Completion \<Rightarrow> batch \<Rightarrow> batch" where
  "settle prompt aspectRatio enhanceQuality outcomes c b =
     (let index = launchIndex c in
      if index < length (slots b) \<and> index < length outcomes \<and> slots b ! index = None then
        (case onSettled prompt aspectRatio enhanceQuality (outcomes ! index) c (last (history b)) of
           (v, update) \<Rightarrow>
             \<lparr>history = history b @ (case update of None \<Rightarrow> [] | Some st \<Rightarrow> [st]),
              slots = (slots b)[index := Some v]\<rparr>)
      else b)"

definition allFailedMessage :: string where
  "allFailedMessage = ''Unable to generate images after multiple auto-fix attempts. This might be due to safety filters or high server load. Please modify your prompt and try again.''"

text \<open>
  What runs once \<open>Promise.all\<close> has resolved: the values in the order of the promises,
  the \<open>null\<close>s filtered out, then either the \<open>throw\<close> and its \<open>catch\<close> block or the two final
  updates.
\<close>

definition finish :: "batch \<Rightarrow> batch" where
  "finish b =
     (let generatedResults = map the (slots b);
          validResults = map the (filter (\<lambda>r. r \<noteq> None) generatedResults);
          st = last (history b)
      in if length validResults = 0 then
           b\<lparr>history := history b @
              [st\<lparr>genState := \<lparr>isGenerating = False, progress = 0, error = Some allFailedMessage\<rparr>\<rparr>]\<rparr>
         else
           b\<lparr>history := history b @
              [st\<lparr>results := validResults\<rparr>,
               st\<lparr>results := validResults,
                  genState := \<lparr>isGenerating = False, progress = 4, error = None\<rparr>\<rparr>]\<rparr>)"

text \<open>
  The batch from the reset on, given how each of the four calls settles. The result is
  the list of states after each update. \<open>Promise.all\<close> resolves only when every promise
  has settled.
\<close>

definition runBatch ::
  "string \<Rightarrow> string \<Rightarrow> bool \<Rightarrow> (js_error + string option) list \<Rightarrow> Completion list \<Rightarrow>
   app_state \<Rightarrow> app_state list" where
  "runBatch prompt aspectRatio enhanceQuality outcomes schedule st =
     (let st1 = st\<lparr>results := []\<rparr>;
          st2 = st1\<lparr>genState := \<lparr>isGenerating = True, progress = 0, error = None\<rparr>\<rparr>;
          b = fold (settle prompt aspectRatio enhanceQuality outcomes) schedule
                \<lparr>history = [st1, st2], slots = replicate 4 None\<rparr>
      in if list_all (\<lambda>s. s \<noteq> None) (slots b) then history (finish b) else history b)"

text \<open>
  \<open>handleGenerate\<close>: nothing happens without a reference image or with an empty prompt;
  otherwise four calls of \<open>generateImageVariation\<close> with the same arguments and the
  default \<open>maxRetries = 3\<close>, invocation \<open>index\<close> talking to \<open>providers index\<close>. What the
  invocations write to the console is no part of the view's state.
\<close>

definition handleGenerate ::
  "RefImage option \<Rightarrow> string \<Rightarrow> string \<Rightarrow> bool \<Rightarrow> (nat \<Rightarrow> provider) \<Rightarrow> Completion list \<Rightarrow>
   app_state \<Rightarrow> app_state list" where
  "handleGenerate refImage prompt aspectRatio enhanceQuality providers schedule st =
     (case refImage of
        None \<Rightarrow> []
      | Some ref \<Rightarrow>
          if prompt = [] then []
          else runBatch prompt aspectRatio enhanceQuality
                 (map (\<lambda>index. Inr (fst (generateImageVariation (providers index)
                         (ref_data ref) (ref_mime ref) prompt aspectRatio enhanceQuality 3)))
                    [0..<4])
                 schedule st)"

definition initialState :: app_state where
  "initialState = \<lparr>results = [], genState = \<lparr>isGenerating = False, progress = 0, error = None\<rparr>\<rparr>"

section \<open>The service: \<open>compareImagesQuality\<close>\<close>

text \<open>
  A value \<open>JSON.parse\<close> can return. A number is the rational it denotes; an object lists
  its properties, each key once.
\<close>

datatype json =
    JNull
  | JBool bool
  | JNumber rat
  | JString string
  | JArray "json list"
  | JObject "(string \<times> json) list"

text \<open>An image handed to the comparison: \<open>{ data, mimeType }\<close>.\<close>

datatype ImageInput = ImageInput (input_data: string) (input_mimeType: string)

definition comparisonPrompt :: string where
  \<open>comparisonPrompt = template_lines
     [''You are a world-class photography judge and technical image analyst. '',
      ''  '',
      ''  Task: Analyze the provided images. Compare them based on:'',
      ''  1. Technical Quality: Sharpness, noise levels, exposure balance, dynamic range, and resolution perception.'',
      ''  2. Aesthetic Quality: Composition, color harmony, lighting, and visual impact.'',
      ''  '',
      ''  Output:'',
      ''  - Assign a score (0-100) to each image.'',
      ''  - Provide a concise critique for each (max 15 words).'',
      ''  - Identify the single BEST image index.'',
      ''  - Provide a reason why it won.'']\<close>

definition responseSchema :: Schema where
  "responseSchema = OBJECT
     [(''bestImageIndex'', INTEGER (Some ''Index of the highest quality image (0-based)'')),
      (''winnerReason'', STRING (Some ''Why this image is the best'')),
      (''analyses'', ARRAY (OBJECT
         [(''index'', INTEGER None),
          (''score'', INTEGER (Some ''Quality score from 0-100'')),
          (''critique'', STRING (Some ''Short critique of the image''))]))]"

definition comparisonRequest :: "ImageInput list \<Rightarrow> GenerateContentParameters" where
  "comparisonRequest images =
     (let imageParts = map (\<lambda>img. Part None (Some (Blob (Some (input_mimeType img))
                                                      (Some (input_data img))))) images
      in GenerateContentParameters ''gemini-2.5-flash''
           (Part (Some comparisonPrompt) None # imageParts)
           (StructuredConfig ''application/json'' responseSchema))"

text \<open>\<open>response.text || "{}"\<close>: the text, unless it is missing or empty.\<close>

definition payloadText :: "GenerateContentResponse \<Rightarrow> string" where
  "payloadText response =
     (case response_text response of
        None \<Rightarrow> ''{}''
      | Some t \<Rightarrow> if t = [] then ''{}'' else t)"

text \<open>
  One call, no retry: a throw of the call or of the parser leaves the function. The
  parser \<open>JSON.parse\<close> belongs to the runtime and is a parameter here.
\<close>

definition compareImagesQuality ::
  "(string \<Rightarrow> js_error + json) \<Rightarrow> provider \<Rightarrow> ImageInput list \<Rightarrow> js_error + json" where
  "compareImagesQuality JSON_parse provider images =
     (case provider 1 (comparisonRequest images) of
        Inl e \<Rightarrow> Inl e
      | Inr response \<Rightarrow> JSON_parse (payloadText response))"

section \<open>The comparator view: \<open>processFiles\<close> and \<open>removeImage\<close>\<close>

text \<open>
  The view's state (\<open>images\<close>, \<open>isAnalyzing\<close>, \<open>result\<close>, \<open>error\<close>) and one of its images
  \<open>{ data, mime, preview }\<close>; \<open>data\<close> is \<open>undefined\<close> when the data URL has no comma.
  A \<open>File\<close> is its MIME type and what its reader holds in \<open>result\<close> when \<open>loadend\<close> fires:
  the data URL, or \<open>null\<close> when the read failed.
\<close>

datatype ComparatorImage =
  ComparatorImage (cmp_data: "string option") (cmp_mime: string) (cmp_preview: string)

record comparator_state =
  images :: "ComparatorImage list"
  isAnalyzing :: bool
  analysisResult :: "json option"
  analysisError :: "string option"

datatype File = File (file_type: string) (reader_result: "string option")

text \<open>\<open>s.split(',')\<close> and the element \<open>[1]\<close> of an array.\<close>

fun split_comma :: "string \<Rightarrow> string list" where
  "split_comma [] = [[]]"
| "split_comma (c # cs) =
     (if c = CHR '','' then [] # split_comma cs
      else (case split_comma cs of
              [] \<Rightarrow> [[c]]
            | w # ws \<Rightarrow> (c # w) # ws))"

definition element1 :: "'a list \<Rightarrow> 'a option" where
  "element1 xs = (case xs of _ # x # _ \<Rightarrow> Some x | _ \<Rightarrow> None)"

text \<open>
  The \<open>loadend\<close> callbacks of one call of \<open>processFiles\<close>, in the order in which the reads
  end (\<open>order\<close> lists indices into \<open>files\<close>). \<open>newImages\<close> and \<open>processedCount\<close> are the two
  variables the callbacks share. A callback whose reader holds \<open>null\<close> throws at
  \<open>split\<close> and changes nothing. The callback that brings the count to \<open>files.length\<close>
  updates the state.
\<close>

fun loadEnds ::
  "File list \<Rightarrow> nat list \<Rightarrow> ComparatorImage list \<Rightarrow> nat \<Rightarrow> comparator_state \<Rightarrow> comparator_state" where
  "loadEnds files [] newImages processedCount st = st"
| "loadEnds files (i # order) newImages processedCount st =
     (case reader_result (files ! i) of
        None \<Rightarrow> loadEnds files order newImages processedCount st
      | Some base64String \<Rightarrow>
          (let newImages' = newImages @
                 [ComparatorImage (element1 (split_comma base64String))
                    (file_type (files ! i)) base64String];
               processedCount' = processedCount + 1;
               st' = (if processedCount' = length files
                      then st\<lparr>images := take 4 (images st @ newImages'),
                              analysisResult := None, analysisError := None\<rparr>
                      else st)
           in loadEnds files order newImages' processedCount' st'))"

text \<open>
  \<open>processFiles\<close>: a reader is started for each file whose type starts with \<open>image/\<close>, and
  each reader fires \<open>loadend\<close> once: \<open>callbacks\<close> keeps of \<open>order\<close> the first occurrence of
  each index that names such a file.
\<close>

definition callbacks :: "File list \<Rightarrow> nat list \<Rightarrow> nat list" where
  "callbacks files order =
     rev (remdups (rev (filter (\<lambda>i. i < length files \<and> prefix ''image/'' (file_type (files ! i)))
                          order)))"

definition processFiles :: "File list \<Rightarrow> nat list \<Rightarrow> comparator_state \<Rightarrow> comparator_state" where
  "processFiles files order st = loadEnds files (callbacks files order) [] 0 st"

text \<open>\<open>prev.filter((_, i) => i !== index)\<close> and \<open>setResult(null)\<close>.\<close>

definition removeImage :: "nat \<Rightarrow> comparator_state \<Rightarrow> comparator_state" where
  "removeImage index st =
     st\<lparr>images := map snd (filter (\<lambda>(i, img). i \<noteq> index) (enumerate 0 (images st))),
        analysisResult := None\<rparr>"

text \<open>What the user does to the image list, and a session from the empty view.\<close>

datatype comparator_action = Upload "File list" "nat list" | Remove nat

fun act :: "comparator_action \<Rightarrow> comparator_state \<Rightarrow> comparator_state" where
  "act (Upload files order) st = processFiles files order st"
| "act (Remove index) st = removeImage index st"

definition emptyView :: comparator_state where
  "emptyView = \<lparr>images = [], isAnalyzing = False, analysisResult = None, analysisError = None\<rparr>"

definition session :: "comparator_action list \<Rightarrow> comparator_state" where
  "session actions = fold act actions emptyView"

section \<open>Vocabulary of the claims about the batch\<close>

text \<open>
  The image reference an invocation delivers when it succeeds: its call resolved with a
  non-empty string.
\<close>

definition imageUrl :: "js_error + string option \<Rightarrow> string option" where
  "imageUrl outcome =
     (case outcome of
        Inr (Some u) \<Rightarrow> if u = [] then None else Some u
      | _ \<Rightarrow> None)"

definition succeeded :: "js_error + string option \<Rightarrow> bool" where
  "succeeded outcome = (imageUrl outcome \<noteq> None)"

text \<open>A schedule in which each of the four invocations completes exactly once.\<close>

definition completesAll :: "Completion list \<Rightarrow> bool" where
  "completesAll schedule =
     (distinct (map launchIndex schedule) \<and> set (map launchIndex schedule) = {0..<4})"

definition completionOf :: "Completion list \<Rightarrow> nat \<Rightarrow> Completion" where
  "completionOf schedule index = the (find (\<lambda>c. launchIndex c = index) schedule)"

text \<open>The state after \<open>k\<close> increments of the progress counter.\<close>

definition bump :: "nat \<Rightarrow> app_state \<Rightarrow> app_state" where
  "bump k st = st\<lparr>genState := (genState st)\<lparr>progress := progress (genState st) + k\<rparr>\<rparr>"

text \<open>The image the view stores for the invocation launched at \<open>index\<close>.\<close>

definition storedImage ::
  "string \<Rightarrow> string \<Rightarrow> bool \<Rightarrow> (js_error + string option) list \<Rightarrow> Completion list \<Rightarrow> nat \<Rightarrow>
   GeneratedImage" where
  "storedImage prompt aspectRatio enhanceQuality outcomes schedule index =
     GeneratedImage
       (decimal (nowForId (completionOf schedule index)) @ decimal index)
       (the (imageUrl (outcomes ! index))) prompt aspectRatio
       (nowForCreatedAt (completionOf schedule index)) (Some enhanceQuality)"

text \<open>How the four calls of one batch settle.\<close>

definition batchOutcomes ::
  "RefImage \<Rightarrow> string \<Rightarrow> string \<Rightarrow> bool \<Rightarrow> (nat \<Rightarrow> provider) \<Rightarrow> (js_error + string option) list" where
  "batchOutcomes ref prompt aspectRatio enhanceQuality providers =
     map (\<lambda>index. Inr (fst (generateImageVariation (providers index)
            (ref_data ref) (ref_mime ref) prompt aspectRatio enhanceQuality 3)))
       [0..<4]"

section \<open>Vocabulary of the claims about the comparator\<close>

text \<open>The image a callback pushes for the file at index \<open>i\<close>.\<close>

definition pushedImage :: "File list \<Rightarrow> nat \<Rightarrow> ComparatorImage" where
  "pushedImage files i =
     ComparatorImage (element1 (split_comma (the (reader_result (files ! i)))))
       (file_type (files ! i)) (the (reader_result (files ! i)))"

text \<open>The callbacks that do not throw: those whose reader holds a data URL.\<close>

definition pushing :: "File list \<Rightarrow> nat list \<Rightarrow> nat list" where
  "pushing files order = filter (\<lambda>i. reader_result (files ! i) \<noteq> None) order"

text \<open>A property of a parsed object, and one that holds a number.\<close>

definition field :: "string \<Rightarrow> json \<Rightarrow> json option" where
  "field k v = (case v of JObject fs \<Rightarrow> map_of fs k | _ \<Rightarrow> None)"

definition numberField :: "string \<Rightarrow> json \<Rightarrow> rat option" where
  "numberField k v = (case field k v of Some (JNumber r) \<Rightarrow> Some r | _ \<Rightarrow> None)"

text \<open>
  A result for \<open>n\<close> images as the specification describes it: exactly \<open>n\<close> entries in
  \<open>analyses\<close>, each with an index among \<open>0..n-1\<close>, the indices distinct, and
  \<open>bestImageIndex\<close> among \<open>0..n-1\<close>.
\<close>

definition validIndex :: "nat \<Rightarrow> rat option \<Rightarrow> bool" where
  "validIndex n r = (case r of None \<Rightarrow> False | Some q \<Rightarrow> q \<in> set (map of_nat [0..<n]))"

definition conformsTo :: "nat \<Rightarrow> json \<Rightarrow> bool" where
  "conformsTo n v =
     ((case field ''analyses'' v of
         Some (JArray entries) \<Rightarrow>
           length entries = n \<and>
           list_all (\<lambda>e. validIndex n (numberField ''index'' e)) entries \<and>
           distinct (map (numberField ''index'') entries)
       | _ \<Rightarrow> False) \<and>
      validIndex n (numberField ''bestImageIndex'' v))"

section \<open>Example providers\<close>

text \<open>
  A provider whose calls throw, except the second, which resolves with text only; a
  provider that always answers with a text part followed by two image parts; a provider
  that answers with one image; a provider that is down.
\<close>

definition flaky :: provider where
  "flaky n request =
     (if n = 2
      then Inr (GenerateContentResponse
             (Some [Candidate (Some (Content (Some [Part (Some ''sorry'') None])))]) None)
      else Inl (Error ''503 overloaded''))"

definition twoImages :: provider where
  "twoImages n request =
     Inr (GenerateContentResponse
       (Some [Candidate (Some (Content (Some
          [Part (Some ''Here is your image'') None,
           Part None (Some (Blob (Some ''image/png'') (Some ''iVBOR''))),
           Part None (Some (Blob (Some ''image/jpeg'') (Some ''SECOND'')))])))]) None)"

definition imageOf :: "string \<Rightarrow> provider" where
  "imageOf d n request =
     Inr (GenerateContentResponse
       (Some [Candidate (Some (Content (Some
          [Part None (Some (Blob (Some ''image/png'') (Some d)))])))]) None)"

definition down :: provider where
  "down n request = Inl (Error ''503 overloaded'')"

section \<open>An example batch\<close>

text \<open>
  Invocations 0 and 2 get an image at their first attempt, invocations 1 and 3 talk to a
  provider that is down. Invocation 2 completes first, then 0, then 3, then 1.
\<close>

definition sampleRef :: RefImage where
  "sampleRef = RefImage ''AAAA'' ''image/png'' ''data:image/png;base64,AAAA''"

definition twoOfFour :: "nat \<Rightarrow> provider" where
  "twoOfFour index =
     (if index = 0 then imageOf ''ZERO'' else if index = 2 then imageOf ''TWO'' else down)"

definition allDown :: "nat \<Rightarrow> provider" where
  "allDown index = down"

definition completionOrder :: "Completion list" where
  "completionOrder =
     [Completion 2 1700000000000 1700000000000,
      Completion 0 1700000000005 1700000000006,
      Completion 3 1700000007000 1700000007000,
      Completion 1 1700000007001 1700000007001]"

section \<open>An example session of the comparator view\<close>

text \<open>
  Three images are uploaded (their reads end in the order 2, 0, 1), then two more, then
  the image at index 1 is removed.
\<close>

definition imageFile :: "string \<Rightarrow> File" where
  "imageFile d = File ''image/png'' (Some (''data:image/png;base64,'' @ d))"

definition sampleSession :: "comparator_action list" where
  "sampleSession =
     [Upload [imageFile ''A'', imageFile ''B'', imageFile ''C''] [2, 0, 1],
      Upload [imageFile ''D'', imageFile ''E''] [0, 1],
      Remove 1]"

section \<open>Example comparisons\<close>

text \<open>
  Three payloads a provider may answer with, and the values \<open>JSON.parse\<close> returns for them
  and for \<open>{}\<close>: \<open>sampleParse\<close> is \<open>JSON.parse\<close> on these four texts, the only ones the
  examples parse.
\<close>

definition conformingPayload :: string where
  \<open>conformingPayload = ''{"bestImageIndex":1,"winnerReason":"sharpest","analyses":[{"index":0,"score":70,"critique":"soft"},{"index":1,"score":90,"critique":"crisp"},{"index":2,"score":60,"critique":"noisy"}]}''\<close>

definition payloadWithoutAnalyses :: string where
  \<open>payloadWithoutAnalyses = ''{"bestImageIndex":1,"winnerReason":"sharpest"}''\<close>

definition payloadOffRange :: string where
  \<open>payloadOffRange = ''{"bestImageIndex":7,"winnerReason":"sharpest","analyses":[{"index":0,"score":70,"critique":"soft"},{"index":0,"score":90,"critique":"crisp"}]}''\<close>

definition withoutAnalysesResult :: json where
  "withoutAnalysesResult =
     JObject [(''bestImageIndex'', JNumber 1), (''winnerReason'', JString ''sharpest'')]"

definition conformingResult :: json where
  "conformingResult =
     JObject
       [(''bestImageIndex'', JNumber 1), (''winnerReason'', JString ''sharpest''),
        (''analyses'', JArray
           [JObject [(''index'', JNumber 0), (''score'', JNumber 70), (''critique'', JString ''soft'')],
            JObject [(''index'', JNumber 1), (''score'', JNumber 90), (''critique'', JString ''crisp'')],
            JObject [(''index'', JNumber 2), (''score'', JNumber 60), (''critique'', JString ''noisy'')]])]"

definition offRangeResult :: json where
  "offRangeResult =
     JObject
       [(''bestImageIndex'', JNumber 7), (''winnerReason'', JString ''sharpest''),
        (''analyses'', JArray
           [JObject [(''index'', JNumber 0), (''score'', JNumber 70), (''critique'', JString ''soft'')],
            JObject [(''index'', JNumber 0), (''score'', JNumber 90), (''critique'', JString ''crisp'')]])]"

definition sampleParse :: "string \<Rightarrow> js_error + json" where
  "sampleParse t =
     (if t = ''{}'' then Inr (JObject [])
      else if t = payloadWithoutAnalyses then Inr withoutAnalysesResult
      else if t = conformingPayload then Inr conformingResult
      else if t = payloadOffRange then Inr offRangeResult
      else Inl (SyntaxError ''Unexpected token''))"

definition answering :: "string option \<Rightarrow> provider" where
  "answering t n request = Inr (GenerateContentResponse None t)"

definition threeInputs :: "ImageInput list" where
  "threeInputs =
     [ImageInput ''AAAA'' ''image/png'', ImageInput ''BBBB'' ''image/jpeg'',
      ImageInput ''CCCC'' ''image/webp'']"

section \<open>Properties of \<open>generateImageVariation\<close>\<close>

lemma firstImage_None: "firstImage ps = None \<longleftrightarrow> \<not> list_ex carriesImage ps"
  by (induction ps) (auto simp: carriesImage_def split: option.splits)

lemma firstImage_first:
  "\<forall>q \<in> set pre. inlinePayload q = None \<Longrightarrow> inlinePayload p = Some d \<Longrightarrow>
   firstImage (pre @ p # post) = Some (''data:image/png;base64,'' @ d)"
  by (induction pre) auto

lemma imageFromResponse_parts:
  "responseParts response \<noteq> [] \<Longrightarrow>
   imageFromResponse response =
     (case firstImage (responseParts response) of Some u \<Rightarrow> Inr u | None \<Rightarrow> Inl noImageError)"
  by (auto simp: responseParts_def imageFromResponse_def split: option.splits list.splits)

lemma imageFromResponse_fails:
  "\<not> list_ex carriesImage (responseParts response) \<Longrightarrow> \<exists>e. imageFromResponse response = Inl e"
  by (auto simp: responseParts_def imageFromResponse_def firstImage_None[symmetric]
      split: option.splits list.splits)

lemma tryAttempt_fails:
  "attemptFails (provider n request) \<Longrightarrow> \<exists>e. tryAttempt provider request n = Inl e"
  using imageFromResponse_fails
  by (auto simp: attemptFails_def tryAttempt_def split: sum.splits)

lemma callsAndWaits_emit [simp]:
  "callsAndWaits (effects (emit e st)) = callsAndWaits (effects st) @ (if isConsole e then [] else [e])"
  by (simp add: callsAndWaits_def emit_def)

lemma callsAndWaits_catchBlock:
  "callsAndWaits (effects (catchBlock k a e st)) =
     callsAndWaits (effects st) @ (if int a < k then [wait (backoffDelay a)] else [])"
  by (simp add: catchBlock_def Let_def callsAndWaits_def emit_def wait_def
      split: delay.splits)

lemma attempts_all_fail:
  assumes "\<forall>n. a \<le> n \<and> int n \<le> k \<longrightarrow> attemptFails (provider n request)"
  shows "fst (attempts provider request k a st) = None \<and>
         callsAndWaits (effects (snd (attempts provider request k a st))) =
           callsAndWaits (effects st) @
           concat (map (\<lambda>i. ProviderCall request #
                              (if int i < k then [wait (backoffDelay i)] else []))
                       [a..<nat (k + 1)])"
  using assms
proof (induction provider request k a st rule: attempts.induct)
  case (1 provider request k a st)
  show ?case
  proof (cases "int a \<le> k")
    case False
    then have "nat (k + 1) \<le> a" by simp
    with False show ?thesis by (simp add: attempts.simps)
  next
    case True
    from "1.prems" True have "attemptFails (provider a request)" by simp
    then obtain e where e: "tryAttempt provider request a = Inl e"
      using tryAttempt_fails by blast
    have later: "\<forall>n. a + 1 \<le> n \<and> int n \<le> k \<longrightarrow> attemptFails (provider n request)"
      using "1.prems" by simp
    note IH = "1.IH"[OF True e later]
    from True have range: "[a..<nat (k + 1)] = a # [a + 1..<nat (k + 1)]"
      by (simp add: upt_conv_Cons)
    show ?thesis
      using IH True e
      by (subst (1 2) attempts.simps) (simp add: range callsAndWaits_catchBlock)
  qed
qed












text \<open>
  Claim C9. With \<open>maxRetries < 1\<close> the loop body never runs: no provider call, no wait,
  and the result is \<open>null\<close>; the only effect is the final \<open>console.error\<close>.
\<close>

theorem no_attempt_below_one:
  assumes "maxRetries < 1"
  shows "generateImageVariation provider img mime p ratio enh maxRetries =
           (None, \<lparr>effects = [ConsoleError ''All generation attempts failed.'' None], lastError = None\<rparr>)"
  using assms by (simp add: generateImageVariation_def attempts.simps emit_def)

theorem no_attempt_below_one_witness:
  "(0::int) < 1 \<and> generateImageVariation flaky ''AAAA'' ''image/png'' ''a cat'' ''1:1'' False 0 =
           (None, \<lparr>effects = [ConsoleError ''All generation attempts failed.'' None], lastError = None\<rparr>)"
  using no_attempt_below_one[of 0 flaky "''AAAA''" "''image/png''" "''a cat''" "''1:1''" False] by simp

text \<open>
  Claim C3. When a first call is made (\<open>1 \<le> maxRetries\<close>) and resolves with a response
  whose parts (those of the first candidate's content) contain a part with a non-empty
  inline payload, the function makes that one call, never waits, and returns the
  embedded-image reference built from the payload of the first such part, whatever parts
  follow it.
\<close>

theorem first_attempt_success:
  assumes "1 \<le> maxRetries"
    and "provider 1 (generationRequest img mime p ratio enh) = Inr response"
    and "responseParts response = before @ part # rest"
    and "\<forall>q \<in> set before. inlinePayload q = None"
    and "inlinePayload part = Some payload"
  shows "generateImageVariation provider img mime p ratio enh maxRetries =
           (Some (''data:image/png;base64,'' @ payload),
            \<lparr>effects = [ProviderCall (generationRequest img mime p ratio enh)], lastError = None\<rparr>)"
proof -
  have "responseParts response \<noteq> []" using assms(3) by simp
  then have "imageFromResponse response = Inr (''data:image/png;base64,'' @ payload)"
    using firstImage_first[OF assms(4,5), of rest] assms(3)
    by (simp add: imageFromResponse_parts)
  then have "tryAttempt provider (generationRequest img mime p ratio enh) 1 =
      Inr (''data:image/png;base64,'' @ payload)"
    using assms(2) by (simp add: tryAttempt_def)
  then show ?thesis
    using assms(1) by (simp add: generateImageVariation_def attempts.simps emit_def)
qed

theorem first_attempt_success_witness:
  "generateImageVariation twoImages ''AAAA'' ''image/png'' ''a cat'' ''1:1'' False 3 =
     (Some ''data:image/png;base64,iVBOR'',
      \<lparr>effects = [ProviderCall (generationRequest ''AAAA'' ''image/png'' ''a cat'' ''1:1'' False)],
       lastError = None\<rparr>)"
proof -
  have a: "(1::int) \<le> 3" by simp
  have b: "twoImages 1 (generationRequest ''AAAA'' ''image/png'' ''a cat'' ''1:1'' False) =
     Inr (GenerateContentResponse
       (Some [Candidate (Some (Content (Some
          [Part (Some ''Here is your image'') None,
           Part None (Some (Blob (Some ''image/png'') (Some ''iVBOR''))),
           Part None (Some (Blob (Some ''image/jpeg'') (Some ''SECOND'')))])))]) None)"
    by (simp add: twoImages_def)
  have c: "responseParts (GenerateContentResponse
       (Some [Candidate (Some (Content (Some
          [Part (Some ''Here is your image'') None,
           Part None (Some (Blob (Some ''image/png'') (Some ''iVBOR''))),
           Part None (Some (Blob (Some ''image/jpeg'') (Some ''SECOND'')))])))]) None) =
       [Part (Some ''Here is your image'') None] @
       Part None (Some (Blob (Some ''image/png'') (Some ''iVBOR''))) #
       [Part None (Some (Blob (Some ''image/jpeg'') (Some ''SECOND'')))]"
    by (simp add: responseParts_def)
  have d: "\<forall>q \<in> set [Part (Some ''Here is your image'') None]. inlinePayload q = None" by simp
  have e: "inlinePayload (Part None (Some (Blob (Some ''image/png'') (Some ''iVBOR'')))) = Some ''iVBOR''"
    by simp
  from first_attempt_success[of 3 twoImages "''AAAA''" "''image/png''" "''a cat''" "''1:1''" False,
      OF a b c d e]
  show ?thesis by simp
qed

lemma enhancementBlock_nonempty: "enhancementBlock \<noteq> []"
  by (simp add: enhancementBlock_def)

text \<open>
  Claim C8. The prompt without enhancement is a prefix of the prompt with enhancement, for
  the same instruction and aspect ratio: the prompt is the base block, followed by the
  enhancement block exactly when \<open>enhanceQuality\<close> is set. The reference image is not part
  of the prompt: it travels in the second part of the request.
\<close>

theorem prompt_two_tiers:
  "prefix (systemPrompt p ratio False) (systemPrompt p ratio True) \<and>
   systemPrompt p ratio enh = basePrompt p ratio @ (if enh then enhancementBlock else []) \<and>
   (systemPrompt p ratio enh = basePrompt p ratio @ enhancementBlock) = enh \<and>
   contents (generationRequest img mime p ratio enh) =
     [Part (Some (systemPrompt p ratio enh)) None, Part None (Some (Blob (Some mime) (Some img)))]"
  using enhancementBlock_nonempty
  by (auto simp: systemPrompt_def generationRequest_def)

section \<open>Properties of \<open>handleGenerate\<close>\<close>

lemma onSettled_eq:
  "onSettled P R E outcome c st =
     (case imageUrl outcome of
        None \<Rightarrow> (None, None)
      | Some u \<Rightarrow>
          (Some (GeneratedImage (decimal (nowForId c) @ decimal (launchIndex c))
                   u P R (nowForCreatedAt c) (Some E)),
           Some (bump 1 st)))"
  by (simp add: onSettled_def imageUrl_def bump_def split: sum.splits option.splits)

lemma bump_bump: "bump k (bump j st) = bump (j + k) st"
  by (simp add: bump_def add.assoc)

lemma bump_0: "bump 0 st = st"
  by (simp add: bump_def)

lemma settle_eq:
  assumes "launchIndex c < length (slots b)" "launchIndex c < length outs"
    "slots b ! launchIndex c = None"
  shows "settle P R E outs c b =
     \<lparr>history = history b @ (if succeeded (outs ! launchIndex c) then [bump 1 (last (history b))] else []),
      slots = (slots b)[launchIndex c := Some (fst (onSettled P R E (outs ! launchIndex c) c st'))]\<rparr>"
  using assms
  by (simp add: settle_def Let_def onSettled_eq succeeded_def split: option.splits)

lemma fold_settle:
  assumes "distinct (map launchIndex sched)"
    and "\<forall>c \<in> set sched. launchIndex c < length (slots b) \<and> launchIndex c < length outs \<and>
           slots b ! launchIndex c = None"
    and "history b \<noteq> []"
  shows "history (fold (settle P R E outs) sched b) =
           history b @ map (\<lambda>k. bump k (last (history b)))
             [1..<Suc (length (filter (\<lambda>c. succeeded (outs ! launchIndex c)) sched))] \<and>
         length (slots (fold (settle P R E outs) sched b)) = length (slots b) \<and>
         (\<forall>j < length (slots b). slots (fold (settle P R E outs) sched b) ! j =
            (case find (\<lambda>c. launchIndex c = j) sched of
               None \<Rightarrow> slots b ! j
             | Some c \<Rightarrow> Some (fst (onSettled P R E (outs ! j) c st'))))"
  using assms
proof (induction sched arbitrary: b)
  case Nil
  then show ?case by simp
next
  case (Cons c sched)
  let ?b = "settle P R E outs c b"
  have c: "launchIndex c < length (slots b)" "launchIndex c < length outs"
    "slots b ! launchIndex c = None"
    using Cons.prems(2) by auto
  note eq = settle_eq[OF c, of P R E st']
  have d: "distinct (map launchIndex sched)" using Cons.prems(1) by simp
  have notin: "\<forall>x \<in> set sched. launchIndex x \<noteq> launchIndex c"
    using Cons.prems(1) by (auto simp: image_iff)
  have pre: "\<forall>x \<in> set sched. launchIndex x < length (slots ?b) \<and> launchIndex x < length outs \<and>
           slots ?b ! launchIndex x = None"
    using Cons.prems(2) notin by (auto simp: eq nth_list_update)
  have ne: "history ?b \<noteq> []" using Cons.prems(3) by (simp add: eq)
  note IH = Cons.IH[OF d pre ne]
  have h: "history (fold (settle P R E outs) (c # sched) b) =
           history b @ map (\<lambda>k. bump k (last (history b)))
             [1..<Suc (length (filter (\<lambda>c. succeeded (outs ! launchIndex c)) (c # sched)))]"
  proof (cases "succeeded (outs ! launchIndex c)")
    case False
    then show ?thesis using IH by (simp add: eq del: upt_Suc)
  next
    case True
    let ?m = "length (filter (\<lambda>c. succeeded (outs ! launchIndex c)) sched)"
    let ?st = "last (history b)"
    have hb: "history ?b = history b @ [bump 1 ?st]" using True by (simp add: eq)
    have "map (\<lambda>k. bump k (bump 1 ?st)) [1..<Suc ?m] =
          map (\<lambda>k. bump k ?st) (map Suc [1..<Suc ?m])"
      by (simp add: bump_bump del: upt_Suc)
    also have "map Suc [1..<Suc ?m] = [Suc 1..<Suc (Suc ?m)]"
      by (rule map_Suc_upt)
    finally have shift: "map (\<lambda>k. bump k (bump 1 ?st)) [1..<Suc ?m] =
          map (\<lambda>k. bump k ?st) [Suc 1..<Suc (Suc ?m)]" .
    have cons: "[1..<Suc (Suc ?m)] = 1 # [Suc 1..<Suc (Suc ?m)]"
      by (rule upt_conv_Cons) simp
    have "history (fold (settle P R E outs) (c # sched) b) =
          history ?b @ map (\<lambda>k. bump k (last (history ?b))) [1..<Suc ?m]"
      using IH by simp
    also have "\<dots> = history b @ bump 1 ?st # map (\<lambda>k. bump k (bump 1 ?st)) [1..<Suc ?m]"
      by (simp add: hb del: upt_Suc)
    also have "\<dots> = history b @ map (\<lambda>k. bump k ?st) [1..<Suc (Suc ?m)]"
      by (simp only: shift cons list.map)
    finally show ?thesis using True by simp
  qed
  have l: "length (slots (fold (settle P R E outs) (c # sched) b)) = length (slots b)"
    using IH by (simp add: eq)
  have s: "\<forall>j < length (slots b). slots (fold (settle P R E outs) (c # sched) b) ! j =
            (case find (\<lambda>c. launchIndex c = j) (c # sched) of
               None \<Rightarrow> slots b ! j
             | Some c \<Rightarrow> Some (fst (onSettled P R E (outs ! j) c st')))"
  proof (intro allI impI)
    fix j assume j: "j < length (slots b)"
    have len: "length (slots ?b) = length (slots b)" by (simp add: eq)
    from IH j len have sj: "slots (fold (settle P R E outs) sched ?b) ! j =
            (case find (\<lambda>c. launchIndex c = j) sched of
               None \<Rightarrow> slots ?b ! j
             | Some c \<Rightarrow> Some (fst (onSettled P R E (outs ! j) c st')))"
      by simp
    have bj: "slots ?b ! j =
        (if launchIndex c = j then Some (fst (onSettled P R E (outs ! j) c st')) else slots b ! j)"
      using j by (auto simp: eq nth_list_update)
    show "slots (fold (settle P R E outs) (c # sched) b) ! j =
            (case find (\<lambda>c. launchIndex c = j) (c # sched) of
               None \<Rightarrow> slots b ! j
             | Some c \<Rightarrow> Some (fst (onSettled P R E (outs ! j) c st')))"
    proof (cases "launchIndex c = j")
      case True
      then have "find (\<lambda>c. launchIndex c = j) sched = None"
        using notin by (auto simp: find_None_iff)
      then show ?thesis using sj bj True by simp
    next
      case False
      then show ?thesis using sj bj by (simp split: option.split)
    qed
  qed
  from h l s show ?case by blast
qed

lemma replicate_4: "replicate 4 x = [x, x, x, x]"
  by (simp add: numeral_eq_Suc)

lemma find_launchIndex:
  assumes "j \<in> set (map launchIndex sched)"
  shows "\<exists>c. find (\<lambda>c. launchIndex c = j) sched = Some c \<and> launchIndex c = j"
proof (cases "find (\<lambda>c. launchIndex c = j) sched")
  case None
  then show ?thesis using assms by (auto simp: find_None_iff)
next
  case (Some c)
  then show ?thesis by (auto simp: find_Some_iff)
qed

lemma fst_onSettled:
  "fst (onSettled P R E outcome c st) =
     (if succeeded outcome
      then Some (GeneratedImage (decimal (nowForId c) @ decimal (launchIndex c))
                   (the (imageUrl outcome)) P R (nowForCreatedAt c) (Some E))
      else None)"
  by (auto simp: onSettled_eq succeeded_def split: option.splits)

lemma count_successes:
  assumes "completesAll sched" "length outs = 4"
  shows "length (filter (\<lambda>c. succeeded (outs ! launchIndex c)) sched) =
         length (filter succeeded outs)"
proof -
  let ?Q = "\<lambda>j. succeeded (outs ! j)"
  have d: "distinct (map launchIndex sched)" and s: "set (map launchIndex sched) = {0..<4}"
    using assms(1) by (auto simp: completesAll_def)
  have "length (filter (\<lambda>c. ?Q (launchIndex c)) sched) =
        length (filter ?Q (map launchIndex sched))"
    by (simp add: filter_map comp_def)
  also have "\<dots> = card ({j. ?Q j} \<inter> set (map launchIndex sched))"
    using d by (rule distinct_length_filter)
  also have "\<dots> = card ({j. ?Q j} \<inter> set [0..<4])"
    using s by simp
  also have "\<dots> = length (filter ?Q [0..<4])"
    by (rule distinct_length_filter[symmetric]) simp
  also have "\<dots> = length (filter succeeded (map (\<lambda>j. outs ! j) [0..<4]))"
    by (simp add: filter_map comp_def)
  also have "map (\<lambda>j. outs ! j) [0..<4] = outs"
    using assms(2) map_nth[of outs] by simp
  finally show ?thesis .
qed

lemma slots_after_schedule:
  assumes "completesAll sched" "length outs = 4" "h \<noteq> []"
  shows "slots (fold (settle P R E outs) sched \<lparr>history = h, slots = replicate 4 None\<rparr>) =
           map (\<lambda>j. Some (if succeeded (outs ! j) then Some (storedImage P R E outs sched j) else None))
             [0..<4]"
proof -
  let ?init = "\<lparr>history = h, slots = replicate 4 None\<rparr>"
  let ?b = "fold (settle P R E outs) sched ?init"
  have d: "distinct (map launchIndex sched)" and s: "set (map launchIndex sched) = {0..<4}"
    using assms(1) by (auto simp: completesAll_def)
  have pre: "\<forall>c \<in> set sched. launchIndex c < length (slots ?init) \<and> launchIndex c < length outs \<and>
           slots ?init ! launchIndex c = None"
  proof
    fix c assume "c \<in> set sched"
    then have "launchIndex c \<in> {0..<4}" using s by auto
    then have "launchIndex c < 4" by simp
    then show "launchIndex c < length (slots ?init) \<and> launchIndex c < length outs \<and>
           slots ?init ! launchIndex c = None"
      using assms(2) by simp
  qed
  have ne: "history ?init \<noteq> []" using assms(3) by simp
  note F = fold_settle[OF d pre ne, of P R E initialState]
  have len: "length (slots ?b) = 4" using F by simp
  show ?thesis
  proof (rule nth_equalityI)
    show "length (slots ?b) = length (map (\<lambda>j. Some (if succeeded (outs ! j)
        then Some (storedImage P R E outs sched j) else None)) [0..<4])"
      using len by simp
  next
    fix j assume "j < length (slots ?b)"
    then have j: "j < 4" using len by simp
    then have "j \<in> set (map launchIndex sched)" using s by simp
    then obtain c where c: "find (\<lambda>c. launchIndex c = j) sched = Some c" "launchIndex c = j"
      using find_launchIndex by blast
    have "slots ?b ! j = Some (fst (onSettled P R E (outs ! j) c initialState))"
      using F j c by simp
    also have "\<dots> = Some (if succeeded (outs ! j) then Some (storedImage P R E outs sched j) else None)"
      using c by (simp add: fst_onSettled storedImage_def completionOf_def)
    finally show "slots ?b ! j = map (\<lambda>j. Some (if succeeded (outs ! j)
        then Some (storedImage P R E outs sched j) else None)) [0..<4] ! j"
      using j by simp
  qed
qed

lemma valid_results:
  "map the (filter (\<lambda>r. r \<noteq> None)
     (map the (map (\<lambda>j. Some (if Q j then Some (f j) else None)) xs))) =
   map f (filter Q xs)"
  by (induction xs) auto

lemma runBatch_shape:
  assumes "completesAll sched" "length outs = 4"
  shows "runBatch P R E outs sched st =
     (let st1 = st\<lparr>results := []\<rparr>;
          st2 = st1\<lparr>genState := \<lparr>isGenerating = True, progress = 0, error = None\<rparr>\<rparr>;
          m = length (filter succeeded outs);
          valid = map (storedImage P R E outs sched) (filter (\<lambda>j. succeeded (outs ! j)) [0..<4])
      in [st1, st2] @ map (\<lambda>k. bump k st2) [1..<Suc m] @
         (if m = 0
          then [st2\<lparr>genState := \<lparr>isGenerating = False, progress = 0, error = Some allFailedMessage\<rparr>\<rparr>]
          else [(bump m st2)\<lparr>results := valid\<rparr>,
                (bump m st2)\<lparr>results := valid,
                   genState := \<lparr>isGenerating = False, progress = 4, error = None\<rparr>\<rparr>]))"
proof -
  define st1 where "st1 = st\<lparr>results := []\<rparr>"
  define st2 where "st2 = st1\<lparr>genState := \<lparr>isGenerating = True, progress = 0, error = None\<rparr>\<rparr>"
  define m where "m = length (filter succeeded outs)"
  define valid where
    "valid = map (storedImage P R E outs sched) (filter (\<lambda>j. succeeded (outs ! j)) [0..<4])"
  define b where "b = fold (settle P R E outs) sched \<lparr>history = [st1, st2], slots = replicate 4 None\<rparr>"
  have d: "distinct (map launchIndex sched)" and s: "set (map launchIndex sched) = {0..<4}"
    using assms(1) by (auto simp: completesAll_def)
  have pre: "\<forall>c \<in> set sched.
      launchIndex c < length (slots \<lparr>history = [st1, st2], slots = replicate 4 None\<rparr>) \<and>
      launchIndex c < length outs \<and>
      slots \<lparr>history = [st1, st2], slots = replicate 4 None\<rparr> ! launchIndex c = None"
  proof
    fix c assume "c \<in> set sched"
    then have "launchIndex c \<in> {0..<4}" using s by auto
    then have "launchIndex c < 4" by simp
    then show "launchIndex c < length (slots \<lparr>history = [st1, st2], slots = replicate 4 None\<rparr>) \<and>
      launchIndex c < length outs \<and>
      slots \<lparr>history = [st1, st2], slots = replicate 4 None\<rparr> ! launchIndex c = None"
      using assms(2) by simp
  qed
  have hist: "history b = [st1, st2] @ map (\<lambda>k. bump k st2) [1..<Suc m]"
    using fold_settle[OF d pre, of P R E initialState] count_successes[OF assms]
    by (simp add: b_def m_def del: upt_Suc)
  have sl: "slots b =
      map (\<lambda>j. Some (if succeeded (outs ! j) then Some (storedImage P R E outs sched j) else None))
        [0..<4]"
    unfolding b_def by (rule slots_after_schedule[OF assms]) simp
  have settled: "list_all (\<lambda>s. s \<noteq> None) (slots b)"
    by (simp add: sl list_all_iff)
  have lst: "last (history b) = bump m st2"
  proof (cases m)
    case 0
    then show ?thesis by (simp add: hist bump_0)
  next
    case (Suc n)
    then have "[1..<Suc m] = [1..<Suc n] @ [m]" by simp
    then show ?thesis by (simp add: hist del: upt_Suc)
  qed
  have v: "map the (filter (\<lambda>r. r \<noteq> None) (map the (slots b))) = valid"
    unfolding sl valid_def by (rule valid_results)
  have lv: "length valid = m"
  proof -
    have "length (filter (\<lambda>j. succeeded (outs ! j)) [0..<4]) =
          length (filter succeeded (map (\<lambda>j. outs ! j) [0..<4]))"
      by (simp add: filter_map comp_def)
    also have "map (\<lambda>j. outs ! j) [0..<4] = outs"
      using assms(2) map_nth[of outs] by simp
    finally show ?thesis by (simp add: valid_def m_def)
  qed
  have fin: "history (finish b) = history b @
       (if m = 0
          then [st2\<lparr>genState := \<lparr>isGenerating = False, progress = 0, error = Some allFailedMessage\<rparr>\<rparr>]
          else [(bump m st2)\<lparr>results := valid\<rparr>,
                (bump m st2)\<lparr>results := valid,
                   genState := \<lparr>isGenerating = False, progress = 4, error = None\<rparr>\<rparr>])"
    unfolding finish_def Let_def v lv lst by (simp add: bump_0)
  have "runBatch P R E outs sched st = history (finish b)"
    using settled by (simp add: runBatch_def Let_def st1_def st2_def b_def)
  then show ?thesis
    by (simp add: fin hist Let_def st1_def st2_def m_def valid_def del: upt_Suc)
qed

lemma generate_exhausted:
  assumes "\<forall>n. 1 \<le> n \<and> n \<le> 3 \<longrightarrow> attemptFails (provider n (generationRequest img mime p ratio enh))"
  shows "fst (generateImageVariation provider img mime p ratio enh 3) = None"
proof -
  have "\<forall>n. 1 \<le> n \<and> int n \<le> 3 \<longrightarrow>
          attemptFails (provider n (generationRequest img mime p ratio enh))"
    using assms by simp
  from attempts_all_fail[of 1 3 provider "generationRequest img mime p ratio enh"
      "\<lparr>effects = [], lastError = None\<rparr>"] this
  show ?thesis by (simp add: generateImageVariation_def)
qed

lemma length_batchOutcomes: "length (batchOutcomes ref p ratio enh providers) = 4"
  by (simp add: batchOutcomes_def)

lemma handleGenerate_runBatch:
  "p \<noteq> [] \<Longrightarrow> handleGenerate (Some ref) p ratio enh providers sched st =
     runBatch p ratio enh (batchOutcomes ref p ratio enh providers) sched st"
  by (simp add: handleGenerate_def batchOutcomes_def)

lemma filter_nth_upt:
  "length outs = 4 \<Longrightarrow> map (\<lambda>j. outs ! j) (filter (\<lambda>j. Q (outs ! j)) [0..<4]) = filter Q outs"
proof -
  assume l: "length outs = 4"
  have "map (\<lambda>j. outs ! j) (filter (\<lambda>j. Q (outs ! j)) [0..<4]) =
        filter Q (map (\<lambda>j. outs ! j) [0..<4])"
    by (simp add: filter_map comp_def)
  also have "map (\<lambda>j. outs ! j) [0..<4] = outs"
    using l map_nth[of outs] by simp
  finally show ?thesis .
qed

lemma progress_trace:
  assumes "completesAll sched" "p \<noteq> []"
  shows "map (\<lambda>s. progress (genState s)) (tl (handleGenerate (Some ref) p ratio enh providers sched st)) =
     (let m = length (filter succeeded (batchOutcomes ref p ratio enh providers))
      in 0 # [1..<Suc m] @ (if m = 0 then [0] else [m, 4]))"
  using runBatch_shape[OF assms(1) length_batchOutcomes, where P = p and R = ratio and E = enh and st = st]
  by (simp add: handleGenerate_runBatch[OF assms(2)] Let_def bump_def comp_def del: upt_Suc)

lemma progress_trace_bounded:
  assumes "completesAll sched" "p \<noteq> []"
  shows "sorted (map (\<lambda>s. progress (genState s)) (tl (handleGenerate (Some ref) p ratio enh providers sched st))) \<and>
     list_all (\<lambda>k. k \<le> 4) (map (\<lambda>s. progress (genState s)) (tl (handleGenerate (Some ref) p ratio enh providers sched st)))"
proof -
  define m where "m = length (filter succeeded (batchOutcomes ref p ratio enh providers))"
  have m4: "m \<le> 4"
    using length_filter_le[of succeeded "batchOutcomes ref p ratio enh providers"]
    by (simp add: m_def length_batchOutcomes)
  have tr: "map (\<lambda>s. progress (genState s)) (tl (handleGenerate (Some ref) p ratio enh providers sched st)) =
      0 # [1..<Suc m] @ (if m = 0 then [0] else [m, 4])"
    using progress_trace[OF assms, of ref ratio enh providers st] by (simp add: m_def Let_def del: upt_Suc)
  have "sorted (0 # [1..<Suc m] @ (if m = 0 then [0] else [m, 4]))"
    using m4 by (auto simp: sorted_append simp del: upt_Suc)
  moreover have "list_all (\<lambda>k. k \<le> 4) (0 # [1..<Suc m] @ (if m = 0 then [0] else [m, 4]))"
    using m4 by (auto simp: list_all_iff simp del: upt_Suc)
  ultimately show ?thesis by (simp only: tr)
qed

lemma upt_0_4: "[0..<4] = [0, 1, 2, 3]"
  by (simp add: upt_rec)

lemma generate_imageOf:
  "fst (generateImageVariation (imageOf d) img mime p ratio enh 3) =
     (if d = [] then None else Some (''data:image/png;base64,'' @ d))"
  by (simp add: generateImageVariation_def attempts.simps tryAttempt_def imageOf_def
      imageFromResponse_def catchBlock_def emit_def Let_def)

lemma generate_down: "fst (generateImageVariation down img mime p ratio enh 3) = None"
  by (rule generate_exhausted) (simp add: down_def attemptFails_def)

lemma twoOfFour_outcomes:
  "batchOutcomes sampleRef ''a cat'' ''1:1'' False twoOfFour =
     [Inr (Some ''data:image/png;base64,ZERO''), Inr None,
      Inr (Some ''data:image/png;base64,TWO''), Inr None]"
  by (simp add: batchOutcomes_def upt_0_4 twoOfFour_def generate_imageOf generate_down)

lemma completionOrder_completesAll: "completesAll completionOrder"
  by (auto simp: completesAll_def completionOrder_def)

text \<open>
  Claim C4. When exactly two of the four invocations succeed (the other two return
  \<open>null\<close>, the only other way \<open>generateImageVariation\<close> settles), then for every order in
  which the four invocations complete, the stored results are the images of the two
  successful invocations in launch order (increasing launch index), two in all, and no state
  from the reset on carries an error.
\<close>

theorem partial_success:
  assumes "completesAll sched" and "p \<noteq> []"
    and "length (filter succeeded (batchOutcomes ref p ratio enh providers)) = 2"
  shows "results (last (handleGenerate (Some ref) p ratio enh providers sched st)) =
           map (storedImage p ratio enh (batchOutcomes ref p ratio enh providers) sched)
             (filter (\<lambda>j. succeeded (batchOutcomes ref p ratio enh providers ! j)) [0..<4]) \<and>
         length (results (last (handleGenerate (Some ref) p ratio enh providers sched st))) = 2 \<and>
         map url (results (last (handleGenerate (Some ref) p ratio enh providers sched st))) =
           map (\<lambda>outcome. the (imageUrl outcome))
             (filter succeeded (batchOutcomes ref p ratio enh providers)) \<and>
         list_all (\<lambda>s. error (genState s) = None)
           (tl (handleGenerate (Some ref) p ratio enh providers sched st))"
proof -
  let ?outs = "batchOutcomes ref p ratio enh providers"
  let ?run = "handleGenerate (Some ref) p ratio enh providers sched st"
  let ?valid = "map (storedImage p ratio enh ?outs sched) (filter (\<lambda>j. succeeded (?outs ! j)) [0..<4])"
  have l: "length ?outs = 4" by (rule length_batchOutcomes)
  have run: "?run =
      [st\<lparr>results := []\<rparr>,
       st\<lparr>results := [], genState := \<lparr>isGenerating = True, progress = 0, error = None\<rparr>\<rparr>,
       st\<lparr>results := [], genState := \<lparr>isGenerating = True, progress = 1, error = None\<rparr>\<rparr>,
       st\<lparr>results := [], genState := \<lparr>isGenerating = True, progress = 2, error = None\<rparr>\<rparr>,
       st\<lparr>results := ?valid, genState := \<lparr>isGenerating = True, progress = 2, error = None\<rparr>\<rparr>,
       st\<lparr>results := ?valid, genState := \<lparr>isGenerating = False, progress = 4, error = None\<rparr>\<rparr>]"
    using runBatch_shape[OF assms(1) l, where P = p and R = ratio and E = enh and st = st] assms(3)
    by (simp add: handleGenerate_runBatch[OF assms(2)] Let_def upt_rec bump_def)
  have a: "results (last ?run) = ?valid" by (simp add: run)
  have lv: "length ?valid = 2"
    using filter_nth_upt[OF l, of succeeded, THEN arg_cong, of length] assms(3) by simp
  have u: "map url ?valid = map (\<lambda>outcome. the (imageUrl outcome)) (filter succeeded ?outs)"
  proof -
    have "map url ?valid = map (\<lambda>j. the (imageUrl (?outs ! j))) (filter (\<lambda>j. succeeded (?outs ! j)) [0..<4])"
      by (simp add: storedImage_def comp_def)
    also have "\<dots> = map (\<lambda>outcome. the (imageUrl outcome))
         (map (\<lambda>j. ?outs ! j) (filter (\<lambda>j. succeeded (?outs ! j)) [0..<4]))"
      by (simp add: comp_def)
    also have "\<dots> = map (\<lambda>outcome. the (imageUrl outcome)) (filter succeeded ?outs)"
      by (simp only: filter_nth_upt[OF l])
    finally show ?thesis .
  qed
  have e: "list_all (\<lambda>s. error (genState s) = None) (tl ?run)"
    by (simp add: run)
  from a lv u e show ?thesis by simp
qed

theorem partial_success_witness:
  "results (last (handleGenerate (Some sampleRef) ''a cat'' ''1:1'' False twoOfFour completionOrder initialState)) =
     [GeneratedImage ''17000000000050'' ''data:image/png;base64,ZERO'' ''a cat'' ''1:1'' 1700000000006 (Some False),
      GeneratedImage ''17000000000002'' ''data:image/png;base64,TWO'' ''a cat'' ''1:1'' 1700000000000 (Some False)] \<and>
   list_all (\<lambda>s. error (genState s) = None)
     (tl (handleGenerate (Some sampleRef) ''a cat'' ''1:1'' False twoOfFour completionOrder initialState))"
proof -
  have p: "''a cat'' \<noteq> []" by simp
  have two: "length (filter succeeded (batchOutcomes sampleRef ''a cat'' ''1:1'' False twoOfFour)) = 2"
    by (simp add: twoOfFour_outcomes succeeded_def imageUrl_def)
  have ids: "decimal 1700000000005 = ''1700000000005''" "decimal 1700000000000 = ''1700000000000''"
    "decimal 0 = ''0''" "decimal 2 = ''2''"
    by (simp_all add: decimal.simps)
  from partial_success[OF completionOrder_completesAll p two, of initialState]
  show ?thesis
    by (simp add: twoOfFour_outcomes upt_0_4 succeeded_def imageUrl_def storedImage_def
        completionOf_def completionOrder_def ids)
qed

text \<open>
  Claim C5. When every attempt of every one of the four invocations fails, all four
  return \<open>null\<close> and, for every completion order, the view goes through exactly three
  states: results cleared, the reset, and one final state that carries the single
  aggregate error message (\<open>allFailedMessage\<close>, which names safety filters and server load).
  The results stay empty and no other state carries an error.
\<close>

theorem total_failure:
  assumes "completesAll sched" and "p \<noteq> []"
    and "\<forall>index < 4. \<forall>n. 1 \<le> n \<and> n \<le> 3 \<longrightarrow>
           attemptFails (providers index n
             (generationRequest (ref_data ref) (ref_mime ref) p ratio enh))"
  shows "batchOutcomes ref p ratio enh providers = replicate 4 (Inr None) \<and>
         handleGenerate (Some ref) p ratio enh providers sched st =
           [st\<lparr>results := []\<rparr>,
            st\<lparr>results := [], genState := \<lparr>isGenerating = True, progress = 0, error = None\<rparr>\<rparr>,
            st\<lparr>results := [],
               genState := \<lparr>isGenerating = False, progress = 0, error = Some allFailedMessage\<rparr>\<rparr>]"
proof -
  have each: "\<And>index. index < 4 \<Longrightarrow>
      fst (generateImageVariation (providers index) (ref_data ref) (ref_mime ref) p ratio enh 3) = None"
    using assms(3) by (intro generate_exhausted) simp
  have outs: "batchOutcomes ref p ratio enh providers = replicate 4 (Inr None)"
    by (simp add: batchOutcomes_def upt_0_4 each replicate_4)
  have none: "length (filter succeeded (batchOutcomes ref p ratio enh providers)) = 0"
    by (simp add: outs replicate_4 succeeded_def imageUrl_def)
  from runBatch_shape[OF assms(1) length_batchOutcomes[of ref p ratio enh providers],
      where P = p and R = ratio and E = enh and st = st] none
  have "handleGenerate (Some ref) p ratio enh providers sched st =
           [st\<lparr>results := []\<rparr>,
            st\<lparr>results := [], genState := \<lparr>isGenerating = True, progress = 0, error = None\<rparr>\<rparr>,
            st\<lparr>results := [],
               genState := \<lparr>isGenerating = False, progress = 0, error = Some allFailedMessage\<rparr>\<rparr>]"
    by (simp add: handleGenerate_runBatch[OF assms(2)] Let_def)
  with outs show ?thesis by simp
qed

theorem total_failure_witness:
  "handleGenerate (Some sampleRef) ''a cat'' ''1:1'' False allDown completionOrder initialState =
     [\<lparr>results = [], genState = \<lparr>isGenerating = False, progress = 0, error = None\<rparr>\<rparr>,
      \<lparr>results = [], genState = \<lparr>isGenerating = True, progress = 0, error = None\<rparr>\<rparr>,
      \<lparr>results = [], genState = \<lparr>isGenerating = False, progress = 0, error = Some allFailedMessage\<rparr>\<rparr>]"
proof -
  have p: "''a cat'' \<noteq> []" by simp
  have fails: "\<forall>index < 4. \<forall>n. 1 \<le> n \<and> n \<le> 3 \<longrightarrow>
           attemptFails (allDown index n
             (generationRequest (ref_data sampleRef) (ref_mime sampleRef) ''a cat'' ''1:1'' False))"
    by (simp add: allDown_def down_def attemptFails_def)
  from total_failure[where sched = completionOrder and p = "''a cat''" and providers = allDown
      and ref = sampleRef and ratio = "''1:1''" and enh = False and st = initialState]
    completionOrder_completesAll p fails
  show ?thesis by (simp add: initialState_def)
qed

text \<open>
  Claim C1, at a batch in which two of four invocations succeed. From the reset on the
  counter reads 0, 1, 2 and stays at 2 while the results are stored; the last update of
  the run then sets it to the constant 4, although two invocations succeeded.
  (\<open>progress_trace\<close> above gives the counter of every run: it starts at 0, never
  decreases and never exceeds 4.)
\<close>

theorem progress_ends_at_four:
  "length (filter succeeded (batchOutcomes sampleRef ''a cat'' ''1:1'' False twoOfFour)) = 2 \<and>
   map (\<lambda>s. progress (genState s))
     (handleGenerate (Some sampleRef) ''a cat'' ''1:1'' False twoOfFour completionOrder initialState) =
     [0, 0, 1, 2, 2, 4]"
proof -
  have p: "''a cat'' \<noteq> []" by simp
  have two: "length (filter succeeded (batchOutcomes sampleRef ''a cat'' ''1:1'' False twoOfFour)) = 2"
    by (simp add: twoOfFour_outcomes succeeded_def imageUrl_def)
  have "map (\<lambda>s. progress (genState s))
     (handleGenerate (Some sampleRef) ''a cat'' ''1:1'' False twoOfFour completionOrder initialState) =
     [0, 0, 1, 2, 2, 4]"
    using runBatch_shape[OF completionOrder_completesAll
        length_batchOutcomes[of sampleRef "''a cat''" "''1:1''" False twoOfFour],
        where P = "''a cat''" and R = "''1:1''" and E = False and st = initialState] two
    by (simp add: handleGenerate_runBatch[OF p] Let_def bump_def initialState_def upt_rec)
  with two show ?thesis by simp
qed

section \<open>Properties of the comparator view\<close>

lemma loadEnds_commit:
  "loadEnds files order new n st =
     (if n < length files \<and> length files \<le> n + length (pushing files order)
      then st\<lparr>images := take 4 (images st @ new @
                  map (pushedImage files) (take (length files - n) (pushing files order))),
              analysisResult := None, analysisError := None\<rparr>
      else st)"
proof (induction order arbitrary: new n st)
  case Nil
  then show ?case by (auto simp: pushing_def)
next
  case (Cons i order)
  show ?case
  proof (cases "reader_result (files ! i)")
    case None
    then show ?thesis using Cons.IH[of new n st] by (simp add: pushing_def)
  next
    case (Some u)
    then have p: "pushing files (i # order) = i # pushing files order"
      by (simp add: pushing_def)
    show ?thesis
    proof (cases "Suc n = length files")
      case True
      then have one: "length files - n = Suc 0" by simp
      have img: "pushedImage files i =
          ComparatorImage (element1 (split_comma u)) (file_type (files ! i)) u"
        using Some by (simp add: pushedImage_def)
      show ?thesis
        using Some True Cons.IH[of "new @ [pushedImage files i]" "Suc n"]
        by (simp add: p Let_def img one)
    next
      case False
      show ?thesis
      proof (cases "n < length files \<and> length files \<le> n + length (pushing files (i # order))")
        case True
        with False have "length files - n = Suc (length files - Suc n)" by linarith
        then show ?thesis
          using Some False True Cons.IH[of "new @ [pushedImage files i]" "Suc n" st]
          by (simp add: p Let_def pushedImage_def)
      next
        case no: False
        then show ?thesis
          using Some False Cons.IH[of "new @ [pushedImage files i]" "Suc n" st]
          by (auto simp: p Let_def pushedImage_def)
      qed
    qed
  qed
qed

lemma processFiles_images:
  "images (processFiles files order st) =
     (if 0 < length files \<and> length files \<le> length (pushing files (callbacks files order))
      then take 4 (images st @ map (pushedImage files)
                     (take (length files) (pushing files (callbacks files order))))
      else images st)"
  by (simp add: processFiles_def loadEnds_commit)

lemma remove_enumerate:
  "map snd (filter (\<lambda>(j, x). j \<noteq> k + i) (enumerate k xs)) = take i xs @ drop (Suc i) xs"
proof (induction xs arbitrary: k i)
  case Nil
  then show ?case by simp
next
  case (Cons x xs)
  show ?case
  proof (cases i)
    case 0
    have "filter (\<lambda>(j, x). j \<noteq> k) (enumerate (Suc k) xs) = enumerate (Suc k) xs"
      by (rule filter_True) (auto simp: in_set_enumerate_eq)
    then show ?thesis using 0 by simp
  next
    case (Suc i')
    then show ?thesis using Cons.IH[of "Suc k" i'] by simp
  qed
qed

lemma removeImage_images:
  "images (removeImage index st) = take index (images st) @ drop (Suc index) (images st)"
  using remove_enumerate[of 0 index "images st"] by (simp add: removeImage_def)

lemma act_bound:
  "length (images st) \<le> 4 \<Longrightarrow> length (images (act a st)) \<le> 4"
  by (cases a) (auto simp: processFiles_images removeImage_images)

lemma fold_act_bound:
  "length (images st) \<le> 4 \<Longrightarrow> length (images (fold act actions st)) \<le> 4"
  by (induction actions arbitrary: st) (auto simp: act_bound)

text \<open>
  Claim C10. After any sequence of uploads and removals from the empty view the image
  list has at most four elements. An upload either leaves the list as it is (some
  callback is missing: a file that is no image, a failed read) or replaces it by the first
  four elements of the old list followed by the new images in callback order; a removal
  deletes the element at the index (nothing when the index is out of range), so it never
  makes the list longer.
\<close>

theorem images_never_exceed_four:
  "length (images (session actions)) \<le> 4 \<and>
   images (processFiles files order st) =
     (if 0 < length files \<and> length files \<le> length (pushing files (callbacks files order))
      then take 4 (images st @ map (pushedImage files)
                     (take (length files) (pushing files (callbacks files order))))
      else images st) \<and>
   images (removeImage index st) = take index (images st) @ drop (Suc index) (images st) \<and>
   length (images (removeImage index st)) \<le> length (images st)"
proof -
  have a: "length (images (session actions)) \<le> 4"
    unfolding session_def by (rule fold_act_bound) (simp add: emptyView_def)
  have c: "length (images (removeImage index st)) \<le> length (images st)"
    by (simp add: removeImage_images)
  from a c processFiles_images removeImage_images show ?thesis by blast
qed

theorem images_never_exceed_four_witness:
  "length (images (session sampleSession)) \<le> 4 \<and>
   map cmp_data (images (session sampleSession)) = [Some ''C'', Some ''B'', Some ''D'']"
proof -
  have a: "length (images (session sampleSession)) \<le> 4"
    using images_never_exceed_four[of sampleSession] by (rule conjunct1)
  have b: "map cmp_data (images (session sampleSession)) = [Some ''C'', Some ''B'', Some ''D'']"
    by (simp add: session_def sampleSession_def emptyView_def processFiles_def callbacks_def
        imageFile_def removeImage_def enumerate_eq_zip upt_rec element1_def Let_def)
  from a b show ?thesis by (rule conjI)
qed


section \<open>Properties of \<open>compareImagesQuality\<close>\<close>

lemma compare_resolved:
  "provider 1 (comparisonRequest imgs) = Inr response \<Longrightarrow>
   compareImagesQuality JSON_parse provider imgs = JSON_parse (payloadText response)"
  by (simp add: compareImagesQuality_def)

text \<open>
  Claim C6, as stated, at a response whose payload is an object without the \<open>analyses\<close>
  property: the comparison does not throw, but what it returns is that object, with its
  two other properties, not the empty object.
\<close>

theorem omitted_analyses_not_emptied:
  "compareImagesQuality sampleParse (answering (Some payloadWithoutAnalyses)) threeInputs =
     Inr withoutAnalysesResult \<and>
   field ''analyses'' withoutAnalysesResult = None \<and>
   withoutAnalysesResult \<noteq> JObject []"
  by (simp add: compareImagesQuality_def answering_def payloadText_def sampleParse_def
      payloadWithoutAnalyses_def withoutAnalysesResult_def field_def)

text \<open>
  Claim C6, amended. When the call resolves and the response's text is missing or empty,
  the comparison does not throw and returns the empty object, the value of
  \<open>JSON.parse("{}")\<close>. Every other text is handed to the parser as it is, so a payload
  that only omits \<open>analyses\<close> comes back as parsed.
\<close>

theorem missing_payload_gives_empty_object:
  assumes "JSON_parse ''{}'' = Inr (JObject [])"
    and "provider 1 (comparisonRequest imgs) = Inr response"
  shows "(response_text response = None \<or> response_text response = Some [] \<longrightarrow>
            compareImagesQuality JSON_parse provider imgs = Inr (JObject [])) \<and>
         (\<forall>t. response_text response = Some t \<and> t \<noteq> [] \<longrightarrow>
            compareImagesQuality JSON_parse provider imgs = JSON_parse t)"
  using assms by (auto simp: compare_resolved payloadText_def)

theorem missing_payload_gives_empty_object_witness:
  "compareImagesQuality sampleParse (answering None) threeInputs = Inr (JObject []) \<and>
   compareImagesQuality sampleParse (answering (Some [])) threeInputs = Inr (JObject []) \<and>
   compareImagesQuality sampleParse (answering (Some conformingPayload)) threeInputs =
     Inr conformingResult"
proof -
  have p: "sampleParse ''{}'' = Inr (JObject [])" by (simp add: sampleParse_def)
  have a: "answering None 1 (comparisonRequest threeInputs) = Inr (GenerateContentResponse None None)"
    by (simp add: answering_def)
  have b: "answering (Some []) 1 (comparisonRequest threeInputs) =
      Inr (GenerateContentResponse None (Some []))"
    by (simp add: answering_def)
  have c: "answering (Some conformingPayload) 1 (comparisonRequest threeInputs) =
      Inr (GenerateContentResponse None (Some conformingPayload))"
    by (simp add: answering_def)
  have ne: "conformingPayload \<noteq> []" by (simp add: conformingPayload_def)
  have v: "sampleParse conformingPayload = Inr conformingResult"
    by (simp add: sampleParse_def conformingPayload_def payloadWithoutAnalyses_def)
  note inst = missing_payload_gives_empty_object[where JSON_parse = sampleParse
      and imgs = threeInputs, OF p]
  from inst[where provider = "answering None", OF a]
    inst[where provider = "answering (Some [])", OF b]
    inst[where provider = "answering (Some conformingPayload)", OF c] ne v
  show ?thesis by simp
qed

text \<open>
  Claim C7, as stated, at two calls with exactly three images. When the response carries
  no text the result is the empty object, which has no \<open>analyses\<close> and no
  \<open>bestImageIndex\<close>; when the payload has two entries, both with index 0, and the best
  index 7, the result is that payload's value.
\<close>

theorem three_images_unvalidated:
  "length threeInputs = 3 \<and>
   compareImagesQuality sampleParse (answering None) threeInputs = Inr (JObject []) \<and>
   \<not> conformsTo 3 (JObject []) \<and>
   compareImagesQuality sampleParse (answering (Some payloadOffRange)) threeInputs =
     Inr offRangeResult \<and>
   \<not> conformsTo 3 offRangeResult"
  by (simp add: compareImagesQuality_def answering_def payloadText_def sampleParse_def
      payloadOffRange_def payloadWithoutAnalyses_def conformingPayload_def offRangeResult_def
      conformsTo_def field_def numberField_def validIndex_def threeInputs_def)

text \<open>
  Claim C7, amended. For every call with exactly three images that resolves, the result
  is what the parser makes of the response's payload, unchanged and unvalidated: it has
  exactly three entries in \<open>analyses\<close> with distinct indices among 0, 1, 2 and a
  \<open>bestImageIndex\<close> among 0, 1, 2 exactly when the parsed payload has.
\<close>

theorem result_is_parsed_payload:
  assumes "length imgs = 3"
    and "provider 1 (comparisonRequest imgs) = Inr response"
  shows "compareImagesQuality JSON_parse provider imgs = JSON_parse (payloadText response) \<and>
         (\<exists>v. compareImagesQuality JSON_parse provider imgs = Inr v \<and> conformsTo 3 v) =
         (\<exists>v. JSON_parse (payloadText response) = Inr v \<and> conformsTo 3 v)"
  using assms by (simp add: compare_resolved)

theorem result_is_parsed_payload_witness:
  "compareImagesQuality sampleParse (answering (Some conformingPayload)) threeInputs =
     Inr conformingResult \<and>
   conformsTo 3 conformingResult"
proof -
  have l: "length threeInputs = 3" by (simp add: threeInputs_def)
  have c: "answering (Some conformingPayload) 1 (comparisonRequest threeInputs) =
      Inr (GenerateContentResponse None (Some conformingPayload))"
    by (simp add: answering_def)
  have t: "payloadText (GenerateContentResponse None (Some conformingPayload)) = conformingPayload"
    by (simp add: payloadText_def conformingPayload_def)
  have v: "sampleParse conformingPayload = Inr conformingResult"
    by (simp add: sampleParse_def conformingPayload_def payloadWithoutAnalyses_def)
  have ok: "conformsTo 3 conformingResult"
    by (simp add: conformingResult_def conformsTo_def field_def numberField_def validIndex_def
        upt_rec)
  from result_is_parsed_payload[where JSON_parse = sampleParse and imgs = threeInputs
      and provider = "answering (Some conformingPayload)", OF l c] t v ok
  show ?thesis by simp
qed

end
